theory Spec2Isabelle
  imports Complex_Main "HOL-Library.Char_ord" "HOL-Library.List_Lexorder"
begin

section \<open>Risiko-Manager: rating engine and ledger\<close>

text \<open>
  A shallow embedding of \<^verbatim>\<open>elo.py\<close>, \<^verbatim>\<open>db.py\<close> and the statistics and
  match-creation code of \<^verbatim>\<open>flask_app.py\<close>.

  Conventions of the embedding.
  \<^item> Python floats and SQLite \<^verbatim>\<open>REAL\<close> columns are modelled as \<^typ>\<open>real\<close>:
    arithmetic is exact, IEEE rounding is not part of the model. The one place where
    the float range makes the source raise, \<^verbatim>\<open>math.pow\<close> overflowing, is kept
    as an error branch.
  \<^item> Python ints and SQLite \<^verbatim>\<open>INTEGER\<close> columns are \<^typ>\<open>int\<close>; \<^verbatim>\<open>TEXT\<close>
    columns are \<^typ>\<open>string\<close>.
  \<^item> A table is the list of its rows in insertion order.
  \<^item> Every \<^verbatim>\<open>raise\<close> is a value \<open>Inl e\<close> of a sum type.
  \<^item> \<^verbatim>\<open>uuid.uuid4()\<close> and \<^verbatim>\<open>time.time()\<close> are inputs of the operation that
    calls them: \<open>uuid4 n\<close> is the n-th identifier drawn during the call, \<open>now\<close> the
    clock value read.
\<close>

subsection \<open>Errors\<close>

datatype error =
    ValueError string
  | IntegrityError
  | OverflowError
  | IndexError

subsection \<open>elo.py\<close>

text \<open>The largest finite double; \<^verbatim>\<open>math.pow\<close> raises OverflowError beyond it.\<close>

definition DBL_MAX :: real where
  "DBL_MAX = (2 ^ 53 - 1) * 2 ^ 971"

text \<open>
  \<^verbatim>\<open>math.pow(10, y)\<close>. The base is the constant 10 at the only call site, so
  \<open>powr\<close> is the power function there.
\<close>

definition math_pow_10 :: "real \<Rightarrow> error + real" where
  "math_pow_10 y = (if 10 powr y > DBL_MAX then Inl OverflowError else Inr (10 powr y))"

text \<open>
  \<^verbatim>\<open>return 1.0 / (1.0 + math.pow(10, (rating_b - rating_a) / 400.0))\<close>
\<close>

definition expected_score :: "real \<Rightarrow> real \<Rightarrow> error + real" where
  "expected_score rating_a rating_b =
     (case math_pow_10 ((rating_b - rating_a) / 400) of
        Inl e \<Rightarrow> Inl e
      | Inr p \<Rightarrow> Inr (1 / (1 + p)))"

text \<open>
  The body of the \<^verbatim>\<open>for l_rating in loser_ratings\<close> loop of
  \<^verbatim>\<open>calculate_deltas\<close>, with the two accumulators \<open>winner_delta\<close> and
  \<open>loser_deltas\<close> as the last argument.
\<close>

fun calculate_deltas_loop ::
  "real \<Rightarrow> real \<Rightarrow> real list \<Rightarrow> real \<times> real list \<Rightarrow> error + (real \<times> real list)" where
  "calculate_deltas_loop winner_rating k_factor [] acc = Inr acc"
| "calculate_deltas_loop winner_rating k_factor (l_rating # rest) (winner_delta, loser_deltas) =
     (case expected_score winner_rating l_rating of
        Inl e \<Rightarrow> Inl e
      | Inr exp_win \<Rightarrow>
          (let single_match_win_delta = k_factor * (1 - exp_win) in
           case expected_score l_rating winner_rating of
             Inl e \<Rightarrow> Inl e
           | Inr exp_loss \<Rightarrow>
               (let single_match_loss_delta = k_factor * (0 - exp_loss) in
                calculate_deltas_loop winner_rating k_factor rest
                  (winner_delta + single_match_win_delta,
                   loser_deltas @ [single_match_loss_delta]))))"

definition calculate_deltas :: "real \<Rightarrow> real list \<Rightarrow> real \<Rightarrow> error + (real \<times> real list)" where
  "calculate_deltas winner_rating loser_ratings k_factor =
     calculate_deltas_loop winner_rating k_factor loser_ratings (0, [])"

subsection \<open>db.py: the tables\<close>

record player =
  p_id :: string
  p_name :: string
  p_rating :: real
  p_games_played :: int
  p_created_at :: real

record match =
  m_id :: string
  m_date :: string
  m_k_factor_used :: real
  m_winner_id :: string
  m_created_at :: real

record participation =
  pt_id :: string
  pt_match_id :: string
  pt_player_id :: string
  pt_is_winner :: int
  pt_rating_before :: real
  pt_rating_after :: real
  pt_rating_delta :: real

text \<open>
  The database. \<open>k_factor_row\<close> is the row of \<^verbatim>\<open>system_settings\<close> with key
  \<^verbatim>\<open>'k_factor'\<close>: \<open>None\<close> when the row is missing, otherwise the number whose
  text \<^verbatim>\<open>str(k)\<close> is stored and \<^verbatim>\<open>float(...)\<close> reads back.
\<close>

record db =
  players :: "player list"
  matches :: "match list"
  participations :: "participation list"
  k_factor_row :: "real option"

text \<open>\<^verbatim>\<open>init_db\<close> on a fresh file: empty tables and the default K-factor 32.\<close>

definition init_db :: db where
  "init_db = \<lparr>players = [], matches = [], participations = [], k_factor_row = Some 32\<rparr>"

subsection \<open>SQL statements\<close>

text \<open>
  Each statement returns the new table contents or the \<^verbatim>\<open>sqlite3.IntegrityError\<close>
  it raises. Foreign keys are enforced (\<^verbatim>\<open>PRAGMA foreign_keys = ON\<close>), immediately,
  with the default action: an insert needs its parent rows, a delete of a parent row
  fails while a child row refers to it.
\<close>

text \<open>
  \<^verbatim>\<open>INSERT INTO players (id, name, created_at)\<close>: primary key \<open>id\<close>, unique
  \<open>name\<close>, defaults \<open>rating = 1200.0\<close> and \<open>games_played = 0\<close>.
\<close>

definition insert_player :: "string \<Rightarrow> string \<Rightarrow> real \<Rightarrow> db \<Rightarrow> error + db" where
  "insert_player new_id name now s =
     (if new_id \<in> p_id ` set (players s) \<or> name \<in> p_name ` set (players s)
      then Inl IntegrityError
      else Inr (s\<lparr>players := players s @
             [\<lparr>p_id = new_id, p_name = name, p_rating = 1200, p_games_played = 0,
               p_created_at = now\<rparr>]\<rparr>))"

definition insert_match :: "match \<Rightarrow> db \<Rightarrow> error + db" where
  "insert_match row s =
     (if m_id row \<in> m_id ` set (matches s) \<or> m_winner_id row \<notin> p_id ` set (players s)
      then Inl IntegrityError
      else Inr (s\<lparr>matches := matches s @ [row]\<rparr>))"

definition insert_participation :: "participation \<Rightarrow> db \<Rightarrow> error + db" where
  "insert_participation row s =
     (if pt_id row \<in> pt_id ` set (participations s)
         \<or> pt_match_id row \<notin> m_id ` set (matches s)
         \<or> pt_player_id row \<notin> p_id ` set (players s)
      then Inl IntegrityError
      else Inr (s\<lparr>participations := participations s @ [row]\<rparr>))"

text \<open>
  \<^verbatim>\<open>UPDATE players SET rating = ?, games_played = games_played + 1 WHERE id = ?\<close>
\<close>

definition update_player_set :: "real \<Rightarrow> string \<Rightarrow> db \<Rightarrow> db" where
  "update_player_set new_rating pid s =
     s\<lparr>players := map (\<lambda>p. if p_id p = pid
                             then p\<lparr>p_rating := new_rating,
                                    p_games_played := p_games_played p + 1\<rparr>
                             else p) (players s)\<rparr>"

text \<open>
  \<^verbatim>\<open>UPDATE players SET rating = rating - ?, games_played = games_played - 1 WHERE id = ?\<close>
\<close>

definition update_player_revert :: "real \<Rightarrow> string \<Rightarrow> db \<Rightarrow> db" where
  "update_player_revert delta pid s =
     s\<lparr>players := map (\<lambda>p. if p_id p = pid
                             then p\<lparr>p_rating := p_rating p - delta,
                                    p_games_played := p_games_played p - 1\<rparr>
                             else p) (players s)\<rparr>"

text \<open>\<^verbatim>\<open>DELETE FROM participations WHERE ...\<close>: no table refers to participations.\<close>

definition delete_participations :: "(participation \<Rightarrow> bool) \<Rightarrow> db \<Rightarrow> db" where
  "delete_participations cond s =
     s\<lparr>participations := filter (\<lambda>x. \<not> cond x) (participations s)\<rparr>"

text \<open>
  \<^verbatim>\<open>DELETE FROM matches WHERE ...\<close>: fails when a participation refers to a
  deleted match.
\<close>

definition delete_matches :: "(match \<Rightarrow> bool) \<Rightarrow> db \<Rightarrow> error + db" where
  "delete_matches cond s =
     (if \<exists>m \<in> set (matches s). cond m \<and> m_id m \<in> pt_match_id ` set (participations s)
      then Inl IntegrityError
      else Inr (s\<lparr>matches := filter (\<lambda>m. \<not> cond m) (matches s)\<rparr>))"

text \<open>
  \<^verbatim>\<open>DELETE FROM players WHERE ...\<close>: fails when a match (as winner) or a
  participation refers to a deleted player.
\<close>

definition delete_players :: "(player \<Rightarrow> bool) \<Rightarrow> db \<Rightarrow> error + db" where
  "delete_players cond s =
     (if \<exists>p \<in> set (players s). cond p \<and>
           (p_id p \<in> m_winner_id ` set (matches s)
            \<or> p_id p \<in> pt_player_id ` set (participations s))
      then Inl IntegrityError
      else Inr (s\<lparr>players := filter (\<lambda>p. \<not> cond p) (players s)\<rparr>))"

text \<open>Sequencing of statements: the first exception ends the block.\<close>

definition and_then :: "error + 'a \<Rightarrow> ('a \<Rightarrow> error + 'b) \<Rightarrow> error + 'b" where
  "and_then r f = (case r of Inl e \<Rightarrow> Inl e | Inr x \<Rightarrow> f x)"

text \<open>
  \<^verbatim>\<open>try: ...; self.conn.commit(); return r
  except Exception as e: self.conn.rollback(); raise e\<close>

  The block runs on the state \<open>s\<close> of the last commit. When it raises, the rollback
  returns the database to \<open>s\<close>; otherwise the commit makes its result the database.
  The result pairs what the call returns or raises with the database after the call.
\<close>

definition transaction :: "db \<Rightarrow> error + ('a \<times> db) \<Rightarrow> (error + 'a) \<times> db" where
  "transaction s body =
     (case body of
        Inl e \<Rightarrow> (Inl e, s)
      | Inr (r, s') \<Rightarrow> (Inr r, s'))"

subsection \<open>db.py: settings and players\<close>

definition get_k_factor :: "db \<Rightarrow> real" where
  "get_k_factor s = (case k_factor_row s of Some v \<Rightarrow> v | None \<Rightarrow> 32)"


text \<open>
  \<^verbatim>\<open>create_player\<close>: the IntegrityError of the insert is re-raised as
  \<^verbatim>\<open>ValueError("Player name already exists")\<close>; the failed insert changed nothing.
\<close>

definition create_player :: "db \<Rightarrow> (nat \<Rightarrow> string) \<Rightarrow> real \<Rightarrow> string \<Rightarrow> (error + string) \<times> db" where
  "create_player s uuid4 now name =
     (let new_id = uuid4 0 in
      case insert_player new_id name now s of
        Inl e \<Rightarrow> (Inl (ValueError ''Player name already exists''), s)
      | Inr s' \<Rightarrow> (Inr new_id, s'))"

definition get_player :: "db \<Rightarrow> string \<Rightarrow> player option" where
  "get_player s player_id = find (\<lambda>p. p_id p = player_id) (players s)"

text \<open>
  \<^verbatim>\<open>delete_player\<close>. \<open>matches_won\<close> is the list of ids selected in step 1; step 2
  deletes the participations of each of them in turn.
\<close>

definition delete_player :: "db \<Rightarrow> string \<Rightarrow> (error + unit) \<times> db" where
  "delete_player s player_id =
     transaction s
       (let matches_won = map m_id (filter (\<lambda>m. m_winner_id m = player_id) (matches s));
            s2 = fold (\<lambda>mid. delete_participations (\<lambda>x. pt_match_id x = mid)) matches_won s
        in and_then (delete_matches (\<lambda>m. m_winner_id m = player_id) s2) (\<lambda>s3.
           let s4 = delete_participations (\<lambda>x. pt_player_id x = player_id) s3
           in and_then (delete_players (\<lambda>p. p_id p = player_id) s4) (\<lambda>s5.
              Inr ((), s5))))"

text \<open>
  \<^verbatim>\<open>delete_match\<close>. \<open>parts\<close> are the \<open>(player_id, rating_delta)\<close> pairs of the
  participations of the match.
\<close>

definition delete_match :: "db \<Rightarrow> string \<Rightarrow> (error + unit) \<times> db" where
  "delete_match s match_id =
     transaction s
       (let parts = map (\<lambda>x. (pt_player_id x, pt_rating_delta x))
                      (filter (\<lambda>x. pt_match_id x = match_id) (participations s))
        in if parts = [] then Inl (ValueError ''Match not found'')
           else
             (let s2 = fold (\<lambda>p. update_player_revert (snd p) (fst p)) parts s;
                  s3 = delete_participations (\<lambda>x. pt_match_id x = match_id) s2
              in and_then (delete_matches (\<lambda>m. m_id m = match_id) s3) (\<lambda>s4.
                 Inr ((), s4))))"

subsection \<open>db.py: recording a match\<close>

text \<open>One dict of \<^verbatim>\<open>losers_data\<close>: \<^verbatim>\<open>{id, delta, new_rating, old_rating}\<close>.\<close>

record l_data =
  l_id :: string
  l_delta :: real
  l_new_rating :: real
  l_old_rating :: real

text \<open>
  The \<^verbatim>\<open>for l_data in losers_data\<close> loop of \<^verbatim>\<open>record_match\<close>; \<open>n\<close> counts the
  identifiers drawn so far.
\<close>

fun record_losers :: "(nat \<Rightarrow> string) \<Rightarrow> string \<Rightarrow> nat \<Rightarrow> l_data list \<Rightarrow> db \<Rightarrow> error + db" where
  "record_losers uuid4 match_id n [] s = Inr s"
| "record_losers uuid4 match_id n (l # rest) s =
     (let pid = l_id l; delta = l_delta l; new_r = l_new_rating l; old_r = l_old_rating l;
          s1 = update_player_set new_r pid s
      in and_then
           (insert_participation
              \<lparr>pt_id = uuid4 n, pt_match_id = match_id, pt_player_id = pid, pt_is_winner = 0,
               pt_rating_before = old_r, pt_rating_after = new_r, pt_rating_delta = delta\<rparr> s1)
           (\<lambda>s2. record_losers uuid4 match_id (Suc n) rest s2))"

text \<open>\<^verbatim>\<open>record_match\<close>. The argument \<open>loser_ids\<close> is not read by the source.\<close>

definition record_match ::
  "db \<Rightarrow> (nat \<Rightarrow> string) \<Rightarrow> real \<Rightarrow> string \<Rightarrow> string \<Rightarrow> string list \<Rightarrow> real \<Rightarrow> real \<Rightarrow> l_data list
     \<Rightarrow> (error + string) \<times> db" where
  "record_match s uuid4 now date winner_id loser_ids winner_delta winner_new_rating losers_data =
     (let match_id = uuid4 0; k_used = get_k_factor s
      in transaction s
           (and_then
              (insert_match
                 \<lparr>m_id = match_id, m_date = date, m_k_factor_used = k_used,
                  m_winner_id = winner_id, m_created_at = now\<rparr> s)
              (\<lambda>s1.
                 let winner_old_rating = winner_new_rating - winner_delta;
                     s2 = update_player_set winner_new_rating winner_id s1
                 in and_then
                      (insert_participation
                         \<lparr>pt_id = uuid4 1, pt_match_id = match_id, pt_player_id = winner_id,
                          pt_is_winner = 1, pt_rating_before = winner_old_rating,
                          pt_rating_after = winner_new_rating,
                          pt_rating_delta = winner_delta\<rparr> s2)
                      (\<lambda>s3. and_then (record_losers uuid4 match_id 2 losers_data s3)
                         (\<lambda>s4. Inr (match_id, s4))))))"

subsection \<open>db.py: the leaderboard\<close>

text \<open>\<^verbatim>\<open>list.sort(key=f, reverse=True)\<close>: descending, equal keys keep their order.\<close>

fun insort_desc :: "('a \<Rightarrow> 'k::linorder) \<Rightarrow> 'a \<Rightarrow> 'a list \<Rightarrow> 'a list" where
  "insort_desc f x [] = [x]"
| "insort_desc f x (y # ys) = (if f y \<le> f x then x # y # ys else y # insort_desc f x ys)"

definition sort_desc :: "('a \<Rightarrow> 'k::linorder) \<Rightarrow> 'a list \<Rightarrow> 'a list" where
  "sort_desc f xs = foldr (insort_desc f) xs []"

text \<open>\<^verbatim>\<open>int(x)\<close> on a float truncates toward zero.\<close>

definition py_int :: "real \<Rightarrow> int" where
  "py_int x = (if 0 \<le> x then \<lfloor>x\<rfloor> else \<lceil>x\<rceil>)"

text \<open>\<^verbatim>\<open>max(p['games_played'] for p in players) if players else 0\<close>\<close>

fun max_games_played :: "player list \<Rightarrow> int" where
  "max_games_played [] = 0"
| "max_games_played (p # ps) = fold (\<lambda>q m. max m (p_games_played q)) ps (p_games_played p)"

text \<open>A row of the leaderboard: the player's columns and the two keys added to the dict.\<close>

record ranked_player =
  rp_player :: player
  is_ranked :: bool
  threshold :: int

definition leaderboard_threshold :: "player list \<Rightarrow> int" where
  "leaderboard_threshold ps =
     (let max_games = max_games_played ps;
          calculated_threshold = max 5 (py_int (real_of_int max_games * 0.20))
      in min 15 calculated_threshold)"

definition get_all_players :: "db \<Rightarrow> ranked_player list" where
  "get_all_players s =
     (let ps = players s
      in if ps = [] then []
         else
           (let thr = leaderboard_threshold ps;
                tagged = map (\<lambda>p. \<lparr>rp_player = p, is_ranked = (thr \<le> p_games_played p),
                                    threshold = thr\<rparr>) ps;
                ranked = filter is_ranked tagged;
                provisional = filter (\<lambda>p. \<not> is_ranked p) tagged
            in sort_desc (\<lambda>x. p_rating (rp_player x)) ranked
               @ sort_desc (\<lambda>x. p_rating (rp_player x)) provisional))"

subsection \<open>db.py: histories\<close>

record history_row =
  h_match_id :: string
  h_date :: string
  h_is_winner :: int
  h_rating_delta :: real
  h_rating_after :: real

text \<open>
  \<^verbatim>\<open>ORDER BY m.date DESC\<close> compares the \<^verbatim>\<open>TEXT\<close> dates bytewise; rows with equal
  dates are kept in the order of the join.
\<close>

definition get_player_history :: "db \<Rightarrow> string \<Rightarrow> history_row list" where
  "get_player_history s player_id =
     sort_desc h_date
       [\<lparr>h_match_id = pt_match_id p, h_date = m_date m, h_is_winner = pt_is_winner p,
         h_rating_delta = pt_rating_delta p, h_rating_after = pt_rating_after p\<rparr>.
        p \<leftarrow> participations s, pt_player_id p = player_id,
        m \<leftarrow> matches s, pt_match_id p = m_id m]"

record match_history_row =
  mh_id :: string
  mh_date :: string
  mh_winner_name :: string
  mh_losers_names :: string

text \<open>The rows of the three joins of \<^verbatim>\<open>get_matches_history\<close>: \<open>(m, w, p, l)\<close>.\<close>

definition matches_join :: "db \<Rightarrow> (match \<times> player \<times> participation \<times> player) list" where
  "matches_join s =
     [(m, w, p, l).
        m \<leftarrow> matches s,
        w \<leftarrow> players s, m_winner_id m = p_id w,
        p \<leftarrow> participations s, pt_match_id p = m_id m \<and> pt_is_winner p = 0,
        l \<leftarrow> players s, pt_player_id p = p_id l]"

text \<open>\<^verbatim>\<open>GROUP_CONCAT(l.name, ', ')\<close> over the rows of one group.\<close>

fun group_concat :: "string list \<Rightarrow> string \<Rightarrow> string" where
  "group_concat [] sep = []"
| "group_concat [x] sep = x"
| "group_concat (x # y # ys) sep = x @ sep @ group_concat (y # ys) sep"

text \<open>
  One output row per group of \<^verbatim>\<open>GROUP BY m.id\<close>; the bare columns are taken from
  the first row of the group. An empty group gives no row.
\<close>

fun group_row :: "(match \<times> player \<times> participation \<times> player) list \<Rightarrow> match_history_row list" where
  "group_row [] = []"
| "group_row ((m, w, p, l) # rest) =
     [\<lparr>mh_id = m_id m, mh_date = m_date m, mh_winner_name = p_name w,
       mh_losers_names =
         group_concat (map (\<lambda>(m, w, p, l). p_name l) ((m, w, p, l) # rest)) '', ''\<rparr>]"

definition get_matches_history :: "db \<Rightarrow> match_history_row list" where
  "get_matches_history s =
     (let rows = matches_join s;
          ids = remdups (map (\<lambda>(m, w, p, l). m_id m) rows)
      in sort_desc mh_date
           (concat (map (\<lambda>g. group_row (filter (\<lambda>(m, w, p, l). m_id m = g) rows)) ids)))"

subsection \<open>flask_app.py: player statistics\<close>

definition total_games :: "history_row list \<Rightarrow> int" where
  "total_games history = int (length history)"

definition wins :: "history_row list \<Rightarrow> int" where
  "wins history = int (length (filter (\<lambda>m. h_is_winner m = 1) history))"

text \<open>\<^verbatim>\<open>win_rate = (wins / total_games * 100) if total_games > 0 else 0\<close>\<close>

definition win_rate :: "history_row list \<Rightarrow> real" where
  "win_rate history =
     (if total_games history > 0
      then real_of_int (wins history) / real_of_int (total_games history) * 100
      else 0)"

subsection \<open>flask_app.py: creating a match\<close>

text \<open>The responses of \<^verbatim>\<open>create_match\<close> once the admin key has been accepted.\<close>

datatype response =
    Created string real "real list"
  | Bad_Request string
  | Not_Found string
  | Server_Error error

text \<open>The loop that looks the losers up; \<open>Inl lid\<close> is the first id not found.\<close>

fun lookup_losers :: "db \<Rightarrow> string list \<Rightarrow> string + player list" where
  "lookup_losers s [] = Inr []"
| "lookup_losers s (lid # rest) =
     (case get_player s lid of
        None \<Rightarrow> Inl lid
      | Some l \<Rightarrow> (case lookup_losers s rest of Inl e \<Rightarrow> Inl e | Inr ls \<Rightarrow> Inr (l # ls)))"

text \<open>
  The loop that builds \<^verbatim>\<open>losers_update_data\<close>; \<^verbatim>\<open>deltas_l[i]\<close> raises IndexError
  when the deltas run out.
\<close>

fun losers_update_data :: "player list \<Rightarrow> real list \<Rightarrow> error + l_data list" where
  "losers_update_data [] deltas_l = Inr []"
| "losers_update_data (l_player # rest) [] = Inl IndexError"
| "losers_update_data (l_player # rest) (d # ds) =
     and_then (losers_update_data rest ds) (\<lambda>tail.
       Inr (\<lparr>l_id = p_id l_player, l_delta = d, l_new_rating = p_rating l_player + d,
             l_old_rating = p_rating l_player\<rparr> # tail))"

definition create_match ::
  "db \<Rightarrow> (nat \<Rightarrow> string) \<Rightarrow> real \<Rightarrow> string \<Rightarrow> string list \<Rightarrow> string \<Rightarrow> response \<times> db" where
  "create_match s uuid4 now winner_id loser_ids date =
     (if winner_id = [] \<or> loser_ids = [] \<or> date = [] then (Bad_Request ''Missing fields'', s)
      else case get_player s winner_id of
        None \<Rightarrow> (Not_Found ''Winner not found'', s)
      | Some winner \<Rightarrow>
          (case lookup_losers s loser_ids of
             Inl lid \<Rightarrow> (Not_Found (''Loser '' @ lid @ '' not found''), s)
           | Inr losers \<Rightarrow>
               (let winner_rating = p_rating winner;
                    loser_ratings = map p_rating losers;
                    k = get_k_factor s
                in case calculate_deltas winner_rating loser_ratings k of
                     Inl e \<Rightarrow> (Server_Error e, s)
                   | Inr (delta_w, deltas_l) \<Rightarrow>
                       (let winner_new = winner_rating + delta_w
                        in case losers_update_data losers deltas_l of
                             Inl e \<Rightarrow> (Server_Error e, s)
                           | Inr losers_update \<Rightarrow>
                               (case record_match s uuid4 now date winner_id loser_ids
                                       delta_w winner_new losers_update of
                                  (Inl e, s') \<Rightarrow> (Server_Error e, s')
                                | (Inr match_id, s') \<Rightarrow>
                                    (Created match_id delta_w deltas_l, s'))))))"

section \<open>Ledger invariants and reachable states\<close>








text \<open>The participation rows written by the loop of \<^verbatim>\<open>record_match\<close>.\<close>

fun loser_rows :: "(nat \<Rightarrow> string) \<Rightarrow> string \<Rightarrow> nat \<Rightarrow> l_data list \<Rightarrow> participation list" where
  "loser_rows uuid4 match_id n [] = []"
| "loser_rows uuid4 match_id n (l # rest) =
     \<lparr>pt_id = uuid4 n, pt_match_id = match_id, pt_player_id = l_id l, pt_is_winner = 0,
      pt_rating_before = l_old_rating l, pt_rating_after = l_new_rating l,
      pt_rating_delta = l_delta l\<rparr> # loser_rows uuid4 match_id (Suc n) rest"

text \<open>The effect of the two \<^verbatim>\<open>UPDATE\<close> statements on one row of \<open>players\<close>.\<close>

definition set_row :: "real \<Rightarrow> string \<Rightarrow> player \<Rightarrow> player" where
  "set_row new_rating pid p =
     (if p_id p = pid
      then p\<lparr>p_rating := new_rating, p_games_played := p_games_played p + 1\<rparr> else p)"

definition revert_row :: "real \<Rightarrow> string \<Rightarrow> player \<Rightarrow> player" where
  "revert_row delta pid p =
     (if p_id p = pid
      then p\<lparr>p_rating := p_rating p - delta, p_games_played := p_games_played p - 1\<rparr> else p)"

subsection \<open>Example data\<close>

text \<open>Identifiers drawn in the examples: a match id, then the participation ids.\<close>

definition example_uuid4 :: "nat \<Rightarrow> string" where
  "example_uuid4 n =
     (if n = 0 then ''m1'' else if n = 1 then ''r1'' else if n = 2 then ''r2'' else ''r3'')"

text \<open>Two new players, as two calls of \<^verbatim>\<open>create_player\<close> leave them.\<close>

definition two_players :: db where
  "two_players =
     snd (create_player (snd (create_player init_db (\<lambda>n. ''a'') 0 ''Ann'')) (\<lambda>n. ''b'') 0 ''Bob'')"

section \<open>Properties of the rating engine\<close>

lemma expected_score_error: "expected_score a b = Inl e \<Longrightarrow> e = OverflowError"
  by (auto simp: expected_score_def math_pow_10_def split: if_splits)




lemma expected_score_equal: "expected_score a a = Inr (1 / 2)"
  by (simp add: expected_score_def math_pow_10_def DBL_MAX_def)







lemma calculate_deltas_loop_returns:
  "\<forall>lr\<in>set ls. \<not> isl (expected_score w lr) \<and> \<not> isl (expected_score lr w) \<Longrightarrow>
   calculate_deltas_loop w k ls (wd, lds) =
     Inr (wd + sum_list (map (\<lambda>lr. k * (1 - projr (expected_score w lr))) ls),
          lds @ map (\<lambda>lr. k * (0 - projr (expected_score lr w))) ls)"
proof (induction ls arbitrary: wd lds)
  case Nil
  then show ?case by simp
next
  case (Cons l ls)
  from Cons.prems obtain x y where xy: "expected_score w l = Inr x" "expected_score l w = Inr y"
    by (cases "expected_score w l"; cases "expected_score l w") auto
  from Cons.prems
  have rest: "\<forall>lr\<in>set ls. \<not> isl (expected_score w lr) \<and> \<not> isl (expected_score lr w)"
    by simp
  show ?case using xy Cons.IH[OF rest] by (simp add: algebra_simps)
qed

lemma calculate_deltas_loop_raises:
  "\<not> (\<forall>lr\<in>set ls. \<not> isl (expected_score w lr) \<and> \<not> isl (expected_score lr w)) \<Longrightarrow>
   calculate_deltas_loop w k ls acc = Inl OverflowError"
proof (induction ls arbitrary: acc)
  case Nil
  then show ?case by simp
next
  case (Cons l ls)
  obtain wd lds where acc: "acc = (wd, lds)" by (cases acc)
  show ?case
  proof (cases "expected_score w l")
    case (Inl e)
    then show ?thesis using expected_score_error[OF Inl] acc by simp
  next
    case (Inr x)
    note ix = Inr
    show ?thesis
    proof (cases "expected_score l w")
      case (Inl e)
      then show ?thesis using expected_score_error[OF Inl] ix acc by simp
    next
      case (Inr y)
      with ix Cons.prems
      have "\<not> (\<forall>lr\<in>set ls. \<not> isl (expected_score w lr) \<and> \<not> isl (expected_score lr w))"
        by simp
      from Cons.IH[OF this] show ?thesis using ix Inr acc by simp
    qed
  qed
qed

text \<open>
  Claim C3: \<open>calculate_deltas\<close> on no losers returns \<open>(0, [])\<close>; on any losers for
  which \<open>expected_score\<close> has a value it returns as winner delta the sum over the losers
  of \<open>k * (1 - expected_score winner lr)\<close> and, position by position, the loser deltas
  \<open>k * (0 - expected_score lr winner)\<close>. (Where an \<open>expected_score\<close> of the formula
  raises, so does \<open>calculate_deltas\<close>.)
\<close>

theorem calculate_deltas_formula:
  "calculate_deltas w [] k = Inr (0, []) \<and>
   calculate_deltas w ls k =
     (if \<forall>lr\<in>set ls. \<not> isl (expected_score w lr) \<and> \<not> isl (expected_score lr w)
      then Inr (sum_list (map (\<lambda>lr. k * (1 - projr (expected_score w lr))) ls),
                map (\<lambda>lr. k * (0 - projr (expected_score lr w))) ls)
      else Inl OverflowError)"
  using calculate_deltas_loop_returns[of ls w k 0 "[]"]
    calculate_deltas_loop_raises[of ls w k "(0, [])"]
  by (simp add: calculate_deltas_def)

theorem calculate_deltas_formula_witness:
  "calculate_deltas 1200 [1200] 32 = Inr (16, [-16])"
  using calculate_deltas_formula[of 1200 32 "[1200]"]
  by (simp add: expected_score_def math_pow_10_def DBL_MAX_def)

section \<open>Properties of the statistics\<close>

lemma wins_le_total_games: "wins h \<le> total_games h"
  by (simp add: wins_def total_games_def)

text \<open>
  Claim C9: \<open>win_rate\<close> is \<open>wins / total_games * 100\<close>, with \<open>total_games\<close> the length
  of the history and \<open>wins\<close> the number of winning rows, it is 0 when \<open>total_games\<close>
  is 0, and it lies between 0 and 100.
\<close>

theorem win_rate_bounds:
  "win_rate history =
     (if total_games history = 0 then 0
      else real_of_int (wins history) / real_of_int (total_games history) * 100)
   \<and> total_games history = int (length history)
   \<and> wins history = int (length (filter (\<lambda>m. h_is_winner m = 1) history))
   \<and> 0 \<le> win_rate history \<and> win_rate history \<le> 100"
proof -
  have nn: "0 \<le> total_games history" by (simp add: total_games_def)
  have w0: "0 \<le> wins history" by (simp add: wins_def)
  have le: "wins history \<le> total_games history" by (rule wins_le_total_games)
  have eq: "win_rate history =
     (if total_games history = 0 then 0
      else real_of_int (wins history) / real_of_int (total_games history) * 100)"
    using nn by (auto simp: win_rate_def)
  have lo: "0 \<le> win_rate history" using nn w0 by (simp add: win_rate_def)
  have hi: "win_rate history \<le> 100"
  proof (cases "total_games history > 0")
    case True
    then have "real_of_int (wins history) * 100 \<le> 100 * real_of_int (total_games history)"
      using le by simp
    then show ?thesis using True by (simp add: win_rate_def pos_divide_le_eq)
  next
    case False
    then show ?thesis by (simp add: win_rate_def)
  qed
  show ?thesis using eq lo hi by (simp add: total_games_def wins_def)
qed

section \<open>Properties of the leaderboard\<close>

lemma set_insort_desc: "set (insort_desc f x xs) = insert x (set xs)"
  by (induction xs) auto

lemma set_sort_desc: "set (sort_desc f xs) = set xs"
  by (induction xs) (auto simp: sort_desc_def set_insort_desc)

lemma fold_max_games:
  "fold (\<lambda>q m. max m (p_games_played q)) ps a = Max (insert a (p_games_played ` set ps))"
proof (induction ps arbitrary: a)
  case Nil
  then show ?case by simp
next
  case (Cons p ps)
  have "Max (insert (max a (p_games_played p)) (p_games_played ` set ps))
      = Max (insert a (insert (p_games_played p) (p_games_played ` set ps)))"
  proof (cases "ps = []")
    case True then show ?thesis by (simp add: max.commute)
  next
    case False
    then show ?thesis by (simp add: max.assoc)
  qed
  then show ?case using Cons.IH by simp
qed

lemma max_games_played_Max:
  "ps \<noteq> [] \<Longrightarrow> max_games_played ps = Max (p_games_played ` set ps)"
  by (cases ps) (simp_all add: fold_max_games)

lemma max5_py_int: "max 5 (py_int x) = max 5 \<lfloor>x\<rfloor>"
proof (cases "0 \<le> x")
  case True then show ?thesis by (simp add: py_int_def)
next
  case False
  then have "\<lceil>x\<rceil> \<le> 0" "\<lfloor>x\<rfloor> \<le> 0" by (simp_all add: ceiling_le_iff floor_le_iff) 
  then show ?thesis using False by (simp add: py_int_def)
qed

lemma threshold_eq:
  "ps \<noteq> [] \<Longrightarrow> leaderboard_threshold ps =
     min 15 (max 5 \<lfloor>real_of_int (Max (p_games_played ` set ps)) * 0.20\<rfloor>)"
  by (simp add: leaderboard_threshold_def max_games_played_Max max5_py_int)

lemma set_get_all_players:
  "players s \<noteq> [] \<Longrightarrow> set (get_all_players s) =
     (\<lambda>p. \<lparr>rp_player = p, is_ranked = (leaderboard_threshold (players s) \<le> p_games_played p),
            threshold = leaderboard_threshold (players s)\<rparr>) ` set (players s)"
  by (auto simp: get_all_players_def Let_def set_sort_desc)

text \<open>
  Claim C6: for a non-empty players table every row of \<open>get_all_players\<close> carries the
  threshold \<open>min 15 (max 5 (floor (max_games * 0.20)))\<close>, \<open>max_games\<close> being the largest
  \<open>games_played\<close>; the threshold is between 5 and 15; and when \<open>max_games\<close> is 0 the
  threshold is 5 and no row is ranked.
\<close>

theorem leaderboard_threshold_clamped:
  assumes "players s \<noteq> []"
  shows "get_all_players s \<noteq> [] \<and>
    (\<forall>r \<in> set (get_all_players s).
       threshold r = min 15 (max 5 \<lfloor>real_of_int (Max (p_games_played ` set (players s))) * 0.20\<rfloor>)
       \<and> 5 \<le> threshold r \<and> threshold r \<le> 15
       \<and> is_ranked r = (threshold r \<le> p_games_played (rp_player r))
       \<and> (Max (p_games_played ` set (players s)) = 0 \<longrightarrow> threshold r = 5 \<and> \<not> is_ranked r))"
proof -
  let ?M = "Max (p_games_played ` set (players s))"
  let ?t = "min 15 (max 5 \<lfloor>real_of_int ?M * 0.20\<rfloor>)"
  have thr: "leaderboard_threshold (players s) = ?t" using assms by (rule threshold_eq)
  have S: "set (get_all_players s) =
     (\<lambda>p. \<lparr>rp_player = p, is_ranked = (?t \<le> p_games_played p), threshold = ?t\<rparr>) ` set (players s)"
    using set_get_all_players[OF assms] thr by simp
  have ne: "get_all_players s \<noteq> []"
  proof
    assume "get_all_players s = []"
    then have "set (get_all_players s) = {}" by simp
    with S assms show False by simp
  qed
  have bounds: "5 \<le> ?t" "?t \<le> 15" by simp_all
  have zero: "?M = 0 \<Longrightarrow> ?t = 5" by simp
  have le: "\<And>p. p \<in> set (players s) \<Longrightarrow> p_games_played p \<le> ?M" by simp
  have prov: "\<And>p. ?M = 0 \<Longrightarrow> p \<in> set (players s) \<Longrightarrow> \<not> (?t \<le> p_games_played p)"
  proof -
    fix p assume m: "?M = 0" and p: "p \<in> set (players s)"
    from le[OF p] m have "p_games_played p \<le> 0" by simp
    moreover have "?t = 5" using m by simp
    ultimately show "\<not> (?t \<le> p_games_played p)" by simp
  qed
  show ?thesis
  proof (intro conjI ballI)
    show "get_all_players s \<noteq> []" by (rule ne)
  next
    fix r assume "r \<in> set (get_all_players s)"
    with S obtain p where p: "p \<in> set (players s)"
      and r: "r = \<lparr>rp_player = p, is_ranked = (?t \<le> p_games_played p), threshold = ?t\<rparr>" by auto
    show "threshold r = ?t" using r by simp
    show "5 \<le> threshold r" using r bounds by simp
    show "threshold r \<le> 15" using r bounds by simp
    show "is_ranked r = (threshold r \<le> p_games_played (rp_player r))" using r by simp
    show "?M = 0 \<longrightarrow> threshold r = 5 \<and> \<not> is_ranked r"
      using r zero prov[OF _ p] by simp
  qed
qed

theorem leaderboard_threshold_clamped_witness:
  "players \<lparr>players =
       [\<lparr>p_id = ''a'', p_name = ''Ann'', p_rating = 1300, p_games_played = 32, p_created_at = 0\<rparr>,
        \<lparr>p_id = ''b'', p_name = ''Bob'', p_rating = 1250, p_games_played = 3, p_created_at = 0\<rparr>],
      matches = [], participations = [], k_factor_row = Some 32\<rparr> \<noteq> []
   \<and> map threshold (get_all_players \<lparr>players =
       [\<lparr>p_id = ''a'', p_name = ''Ann'', p_rating = 1300, p_games_played = 32, p_created_at = 0\<rparr>,
        \<lparr>p_id = ''b'', p_name = ''Bob'', p_rating = 1250, p_games_played = 3, p_created_at = 0\<rparr>],
      matches = [], participations = [], k_factor_row = Some 32\<rparr>) = [6, 6]
   \<and> map is_ranked (get_all_players \<lparr>players =
       [\<lparr>p_id = ''a'', p_name = ''Ann'', p_rating = 1300, p_games_played = 32, p_created_at = 0\<rparr>,
        \<lparr>p_id = ''b'', p_name = ''Bob'', p_rating = 1250, p_games_played = 3, p_created_at = 0\<rparr>],
      matches = [], participations = [], k_factor_row = Some 32\<rparr>) = [True, False]"
  using leaderboard_threshold_clamped[of "\<lparr>players =
       [\<lparr>p_id = ''a'', p_name = ''Ann'', p_rating = 1300, p_games_played = 32, p_created_at = 0\<rparr>,
        \<lparr>p_id = ''b'', p_name = ''Bob'', p_rating = 1250, p_games_played = 3, p_created_at = 0\<rparr>],
      matches = [], participations = [], k_factor_row = Some 32\<rparr>"]
  by (simp add: get_all_players_def leaderboard_threshold_def py_int_def sort_desc_def)

section \<open>Properties of the ledger\<close>

lemma fold_delete_participations:
  "fold (\<lambda>mid. delete_participations (\<lambda>x. pt_match_id x = mid)) mids s =
     s\<lparr>participations := filter (\<lambda>x. pt_match_id x \<notin> set mids) (participations s)\<rparr>"
proof (induction mids arbitrary: s)
  case Nil
  then show ?case by simp
next
  case (Cons a mids)
  show ?case
    unfolding fold_Cons comp_apply Cons.IH
    by (simp add: delete_participations_def conj_commute)
qed

lemma delete_player_result:
  "delete_player s P =
     (Inr (),
      s\<lparr>players := filter (\<lambda>p. p_id p \<noteq> P) (players s),
        matches := filter (\<lambda>m. m_winner_id m \<noteq> P) (matches s),
        participations :=
          filter (\<lambda>x. pt_player_id x \<noteq> P
                      \<and> pt_match_id x \<notin> m_id ` {m \<in> set (matches s). m_winner_id m = P})
            (participations s)\<rparr>)"
proof -
  let ?won = "map m_id (filter (\<lambda>m. m_winner_id m = P) (matches s))"
  let ?s2 = "s\<lparr>participations := filter (\<lambda>x. pt_match_id x \<notin> set ?won) (participations s)\<rparr>"
  let ?s3 = "?s2\<lparr>matches := filter (\<lambda>m. \<not> m_winner_id m = P) (matches s)\<rparr>"
  let ?s4 = "delete_participations (\<lambda>x. pt_player_id x = P) ?s3"
  have no_child: "\<not> (\<exists>m \<in> set (matches ?s2). m_winner_id m = P
                      \<and> m_id m \<in> pt_match_id ` set (participations ?s2))"
  proof
    assume "\<exists>m \<in> set (matches ?s2). m_winner_id m = P
                      \<and> m_id m \<in> pt_match_id ` set (participations ?s2)"
    then obtain m x where m: "m \<in> set (matches s)" "m_winner_id m = P"
      and x: "x \<in> set (participations s)" "pt_match_id x \<notin> set ?won" "m_id m = pt_match_id x"
      by auto
    from m have "m_id m \<in> set ?won" by simp
    with x show False by simp
  qed
  have dm: "delete_matches (\<lambda>m. m_winner_id m = P) ?s2 = Inr ?s3"
    unfolding delete_matches_def using no_child by simp
  have dp: "delete_players (\<lambda>p. p_id p = P) ?s4 =
      Inr (?s4\<lparr>players := filter (\<lambda>p. \<not> p_id p = P) (players s)\<rparr>)"
    by (auto simp: delete_players_def delete_participations_def)
  have won: "set ?won = m_id ` {m \<in> set (matches s). m_winner_id m = P}" by auto
  have "delete_player s P = (Inr (), ?s4\<lparr>players := filter (\<lambda>p. \<not> p_id p = P) (players s)\<rparr>)"
    by (simp only: delete_player_def Let_def fold_delete_participations dm and_then_def
          sum.case dp transaction_def prod.case)
  then show ?thesis
    by (simp add: delete_participations_def conj_commute)
qed

text \<open>
  Claim C4: \<open>delete_player s P\<close> always succeeds and leaves exactly: the players other
  than \<open>P\<close>, each row unchanged (rating and games_played as last written); the matches
  not won by \<open>P\<close>; and the participations that neither refer to \<open>P\<close> nor belong to
  a match won by \<open>P\<close>.
\<close>

theorem delete_player_cascade:
  "delete_player s P =
     (Inr (),
      s\<lparr>players := filter (\<lambda>p. p_id p \<noteq> P) (players s),
        matches := filter (\<lambda>m. m_winner_id m \<noteq> P) (matches s),
        participations :=
          filter (\<lambda>x. pt_player_id x \<noteq> P
                      \<and> pt_match_id x \<notin> m_id ` {m \<in> set (matches s). m_winner_id m = P})
            (participations s)\<rparr>)"
  by (rule delete_player_result)

lemma fold_revert_frame:
  "matches (fold (\<lambda>p. update_player_revert (snd p) (fst p)) parts s) = matches s
 \<and> participations (fold (\<lambda>p. update_player_revert (snd p) (fst p)) parts s) = participations s"
  by (induction parts arbitrary: s) (simp_all add: update_player_revert_def)

lemma delete_match_cases:
  "fst (delete_match s mid) =
     (if filter (\<lambda>x. pt_match_id x = mid) (participations s) = []
      then Inl (ValueError ''Match not found'') else Inr ())"
proof -
  let ?parts = "map (\<lambda>x. (pt_player_id x, pt_rating_delta x))
                      (filter (\<lambda>x. pt_match_id x = mid) (participations s))"
  let ?s2 = "fold (\<lambda>p. update_player_revert (snd p) (fst p)) ?parts s"
  let ?s3 = "delete_participations (\<lambda>x. pt_match_id x = mid) ?s2"
  have "\<exists>s4. delete_matches (\<lambda>m. m_id m = mid) ?s3 = Inr s4"
    by (auto simp: delete_matches_def delete_participations_def fold_revert_frame)
  then obtain s4 where "delete_matches (\<lambda>m. m_id m = mid) ?s3 = Inr s4" ..
  then show ?thesis
    by (simp add: delete_match_def Let_def and_then_def transaction_def)
qed

lemma transaction_rollback: "isl (fst (transaction s body)) \<Longrightarrow> snd (transaction s body) = s"
  by (cases body) (auto simp: transaction_def)

text \<open>
  Claim C5: \<open>delete_match\<close> raises "Match not found" exactly when no participation row
  has the given match id; that is its only failure; and whenever it fails the database
  after the call is the database before it.
\<close>

theorem delete_match_not_found_atomic:
  "(fst (delete_match s mid) = Inl (ValueError ''Match not found'')
      \<longleftrightarrow> \<not> (\<exists>x \<in> set (participations s). pt_match_id x = mid))
   \<and> (isl (fst (delete_match s mid)) \<longrightarrow> snd (delete_match s mid) = s)
   \<and> (isl (fst (delete_match s mid)) \<longleftrightarrow> fst (delete_match s mid) = Inl (ValueError ''Match not found''))"
proof (intro conjI impI)
  show "(fst (delete_match s mid) = Inl (ValueError ''Match not found''))
      \<longleftrightarrow> (\<not> (\<exists>x \<in> set (participations s). pt_match_id x = mid))"
    by (simp add: delete_match_cases filter_empty_conv)
  show "snd (delete_match s mid) = s" if "isl (fst (delete_match s mid))"
    using that unfolding delete_match_def by (rule transaction_rollback)
  show "isl (fst (delete_match s mid)) \<longleftrightarrow> fst (delete_match s mid) = Inl (ValueError ''Match not found'')"
    by (simp add: delete_match_cases)
qed

theorem delete_match_not_found_atomic_witness:
  "isl (fst (delete_match init_db ''m1'')) \<and> snd (delete_match init_db ''m1'') = init_db
   \<and> fst (delete_match init_db ''m1'') = Inl (ValueError ''Match not found'')"
  using delete_match_not_found_atomic[of init_db "''m1''"] by (simp add: init_db_def)

lemma set_matches_join:
  "set (matches_join s) =
     {(m, w, p, l). m \<in> set (matches s) \<and> w \<in> set (players s) \<and> m_winner_id m = p_id w
        \<and> p \<in> set (participations s) \<and> pt_match_id p = m_id m \<and> pt_is_winner p = 0
        \<and> l \<in> set (players s) \<and> pt_player_id p = p_id l}"
  by (auto simp: matches_join_def)

lemma mh_id_group_row:
  "rows \<noteq> [] \<Longrightarrow> \<forall>r \<in> set rows. (case r of (m, w, p, l) \<Rightarrow> m_id m) = g \<Longrightarrow>
   map mh_id (group_row rows) = [g]"
  by (cases rows) auto

lemma mh_id_get_matches_history:
  "mh_id ` set (get_matches_history s) = (\<lambda>(m, w, p, l). m_id m) ` set (matches_join s)"
proof -
  let ?rows = "matches_join s"
  let ?key = "\<lambda>(m, w, p, l). m_id m"
  let ?grp = "\<lambda>g. group_row (filter (\<lambda>(m, w, p, l). m_id m = g) ?rows)"
  have grp: "mh_id ` set (?grp g) = {g}" if "g \<in> ?key ` set ?rows" for g
  proof -
    have "map mh_id (?grp g) = [g]"
    proof (rule mh_id_group_row)
      from that show "filter (\<lambda>(m, w, p, l). m_id m = g) ?rows \<noteq> []"
        by (fastforce simp: filter_empty_conv)
      show "\<forall>r \<in> set (filter (\<lambda>(m, w, p, l). m_id m = g) ?rows).
              (case r of (m, w, p, l) \<Rightarrow> m_id m) = g"
        by auto
    qed
    then have "set (map mh_id (?grp g)) = {g}" by simp
    then show ?thesis by simp
  qed
  have "set (get_matches_history s) = (\<Union>g \<in> ?key ` set ?rows. set (?grp g))"
    by (simp add: get_matches_history_def Let_def set_sort_desc)
  then have "mh_id ` set (get_matches_history s) = (\<Union>g \<in> ?key ` set ?rows. mh_id ` set (?grp g))"
    by (simp only: image_UN)
  also have "\<dots> = (\<Union>g \<in> ?key ` set ?rows. {g})"
    using grp by (intro SUP_cong refl)
  also have "\<dots> = ?key ` set ?rows" by simp
  finally show ?thesis .
qed

text \<open>
  Claim C10: the matches returned by \<open>get_matches_history\<close> are exactly the stored
  matches whose winner is an existing player and that have at least one participation
  row with \<open>is_winner = 0\<close> whose player exists; a match without such a row is not in
  the list.
\<close>

theorem get_matches_history_needs_loser:
  "mh_id ` set (get_matches_history s) =
     {m_id m | m. m \<in> set (matches s) \<and> m_winner_id m \<in> p_id ` set (players s)
        \<and> (\<exists>p \<in> set (participations s). pt_match_id p = m_id m \<and> pt_is_winner p = 0
               \<and> pt_player_id p \<in> p_id ` set (players s))}"
  unfolding mh_id_get_matches_history set_matches_join
  by (auto simp: image_iff) force+

section \<open>Recording and reversing a match\<close>





lemma p_id_set_row [simp]: "p_id (set_row r pid p) = p_id p"
  by (simp add: set_row_def)

lemma p_id_revert_row [simp]: "p_id (revert_row d pid p) = p_id p"
  by (simp add: revert_row_def)





lemma length_loser_rows [simp]: "length (loser_rows uuid4 mid n ld) = length ld"
  by (induction ld arbitrary: n) auto



lemma two_players_eq:
  "two_players = \<lparr>players =
       [\<lparr>p_id = ''a'', p_name = ''Ann'', p_rating = 1200, p_games_played = 0, p_created_at = 0\<rparr>,
        \<lparr>p_id = ''b'', p_name = ''Bob'', p_rating = 1200, p_games_played = 0, p_created_at = 0\<rparr>],
      matches = [], participations = [], k_factor_row = Some 32\<rparr>"
  by (simp add: two_players_def create_player_def insert_player_def init_db_def Let_def)

lemma example_uuid4_simps:
  "example_uuid4 0 = ''m1''" "example_uuid4 1 = ''r1''" "example_uuid4 2 = ''r2''"
  "example_uuid4 (Suc 0) = ''r1''" "example_uuid4 (Suc (Suc 0)) = ''r2''"
  "example_uuid4 (Suc 2) = ''r3''"
  by (simp_all add: example_uuid4_def)





lemma p_id_fold_revert_row [simp]:
  "p_id (fold (\<lambda>e. revert_row (snd e) (fst e)) parts p) = p_id p"
  by (induction parts arbitrary: p) auto








lemma example_uuid4_3: "example_uuid4 3 = ''r3''"
  by (simp add: example_uuid4_def)

lemmas eval_defs = example_uuid4_3 record_match_def Let_def insert_match_def insert_participation_def
        update_player_set_def and_then_def transaction_def get_k_factor_def example_uuid4_simps
        delete_match_def update_player_revert_def delete_participations_def delete_matches_def


text \<open>
  \<open>create_match\<close> accepts a loser id listed twice and passes exactly these values to
  \<open>record_match\<close>.
\<close>

lemma calculate_deltas_two_equal:
  "calculate_deltas 1200 [1200, 1200] 32 = Inr (32, [-16, -16])"
  by (simp add: calculate_deltas_def expected_score_equal)

lemma create_match_duplicate_loser:
  "create_match two_players example_uuid4 1 ''a'' [''b'', ''b''] ''2024-01-01''
   = (Created ''m1'' 32 [-16, -16],
      snd (record_match two_players example_uuid4 1 ''2024-01-01'' ''a'' [''b'', ''b''] 32 1232
          [\<lparr>l_id = ''b'', l_delta = -16, l_new_rating = 1184, l_old_rating = 1200\<rparr>,
           \<lparr>l_id = ''b'', l_delta = -16, l_new_rating = 1184, l_old_rating = 1200\<rparr>]))"
proof -
  have w: "get_player two_players ''a''
      = Some \<lparr>p_id = ''a'', p_name = ''Ann'', p_rating = 1200, p_games_played = 0, p_created_at = 0\<rparr>"
    by (simp add: two_players_eq get_player_def)
  have l: "lookup_losers two_players [''b'', ''b'']
      = Inr [\<lparr>p_id = ''b'', p_name = ''Bob'', p_rating = 1200, p_games_played = 0, p_created_at = 0\<rparr>,
             \<lparr>p_id = ''b'', p_name = ''Bob'', p_rating = 1200, p_games_played = 0, p_created_at = 0\<rparr>]"
    by (simp add: two_players_eq get_player_def)
  have k: "get_k_factor two_players = 32"
    by (simp add: two_players_eq get_k_factor_def)
  have ok: "fst (record_match two_players example_uuid4 1 ''2024-01-01'' ''a'' [''b'', ''b''] 32 1232
          [\<lparr>l_id = ''b'', l_delta = -16, l_new_rating = 1184, l_old_rating = 1200\<rparr>,
           \<lparr>l_id = ''b'', l_delta = -16, l_new_rating = 1184, l_old_rating = 1200\<rparr>]) = Inr ''m1''"
    by (auto simp add: two_players_eq eval_defs)
  show ?thesis
    unfolding create_match_def w l k
    using ok by (auto simp add: calculate_deltas_two_equal and_then_def split: prod.split sum.split)
qed




section \<open>The ledger invariant\<close>






















end
